theory Spec2Isabelle
  imports Main "HOL-Library.Log_Nat"
begin

section \<open>JavaScript strings\<close>

text \<open>
  A JavaScript string is modelled by the \<^typ>\<open>string\<close> of its UTF-8 encoding, so
  the non-ASCII characters of the source (the arrow of the chat message) and of a payload
  are byte sequences. The delimiters the code splits on (comma, colon) and the digits are
  ASCII, hence single bytes that never occur inside a longer sequence.
\<close>

text \<open>
  The code points that \<open>String.prototype.trim\<close> and \<open>Number\<close> strip (WhiteSpace and
  LineTerminator of ECMAScript), each as its UTF-8 bytes: TAB, LF, VT, FF, CR, SP, U+00A0,
  U+1680, U+2000 to U+200A, U+2028, U+2029, U+202F, U+205F, U+3000, U+FEFF.
\<close>

definition js_whitespace :: "string list" where
  "js_whitespace =
     [[CHR 0x09], [CHR 0x0A], [CHR 0x0B], [CHR 0x0C], [CHR 0x0D], [CHR 0x20],
      [CHR 0xC2, CHR 0xA0], [CHR 0xE1, CHR 0x9A, CHR 0x80],
      [CHR 0xE2, CHR 0x80, CHR 0x80], [CHR 0xE2, CHR 0x80, CHR 0x81],
      [CHR 0xE2, CHR 0x80, CHR 0x82], [CHR 0xE2, CHR 0x80, CHR 0x83],
      [CHR 0xE2, CHR 0x80, CHR 0x84], [CHR 0xE2, CHR 0x80, CHR 0x85],
      [CHR 0xE2, CHR 0x80, CHR 0x86], [CHR 0xE2, CHR 0x80, CHR 0x87],
      [CHR 0xE2, CHR 0x80, CHR 0x88], [CHR 0xE2, CHR 0x80, CHR 0x89],
      [CHR 0xE2, CHR 0x80, CHR 0x8A], [CHR 0xE2, CHR 0x80, CHR 0xA8],
      [CHR 0xE2, CHR 0x80, CHR 0xA9], [CHR 0xE2, CHR 0x80, CHR 0xAF],
      [CHR 0xE2, CHR 0x81, CHR 0x9F], [CHR 0xE3, CHR 0x80, CHR 0x80],
      [CHR 0xEF, CHR 0xBB, CHR 0xBF]]"

text \<open>The number of bytes of the sequence of \<open>seqs\<close> that \<open>s\<close> starts with, 0 if none.\<close>

definition lead_len :: "string list \<Rightarrow> string \<Rightarrow> nat" where
  "lead_len seqs s =
     (case find (\<lambda>w. w \<noteq> [] \<and> take (length w) s = w) seqs of
        None \<Rightarrow> 0
      | Some w \<Rightarrow> length w)"

function strip_lead :: "string list \<Rightarrow> string \<Rightarrow> string" where
  "strip_lead seqs s =
     (if lead_len seqs s = 0 then s else strip_lead seqs (drop (lead_len seqs s) s))"
  by pat_completeness auto
termination
proof (relation "measure (\<lambda>(seqs, s). length s)")
  show "wf (measure (\<lambda>(seqs, s). length s))" by simp
next
  fix seqs :: "string list" and s :: string
  assume nz: "lead_len seqs s \<noteq> 0"
  have "lead_len seqs s \<le> length s"
  proof (cases "find (\<lambda>w. w \<noteq> [] \<and> take (length w) s = w) seqs")
    case None
    then show ?thesis by (simp add: lead_len_def)
  next
    case (Some w)
    then have "take (length w) s = w"
      by (auto simp: find_Some_iff)
    then have "length (take (length w) s) = length w"
      by simp
    then have "length w \<le> length s"
      by simp
    with Some show ?thesis by (simp add: lead_len_def)
  qed
  with nz show "((seqs, drop (lead_len seqs s) s), (seqs, s)) \<in> measure (\<lambda>(seqs, s). length s)"
    by simp
qed

declare strip_lead.simps [simp del]

definition trimStart :: "string \<Rightarrow> string" where
  "trimStart s = strip_lead js_whitespace s"

definition trimEnd :: "string \<Rightarrow> string" where
  "trimEnd s = rev (strip_lead (map rev js_whitespace) (rev s))"

definition trim :: "string \<Rightarrow> string" where
  "trim s = trimEnd (trimStart s)"

text \<open>
  \<open>s.split(c)\<close> for a one-character separator: the pieces between the separators, always
  at least one piece (\<open>"".split(",")\<close> is \<open>[""]\<close>).
\<close>

fun split_on :: "char \<Rightarrow> string \<Rightarrow> string list" where
  "split_on c [] = [[]]"
| "split_on c (x # xs) =
     (if x = c then [] # split_on c xs
      else (case split_on c xs of
              [] \<Rightarrow> [[x]]
            | y # ys \<Rightarrow> (x # y) # ys))"

text \<open>\<open>s.includes(c)\<close> for a one-character argument.\<close>

definition includes_chr :: "string \<Rightarrow> char \<Rightarrow> bool" where
  "includes_chr s c = (c \<in> set s)"

fun join :: "string \<Rightarrow> string list \<Rightarrow> string" where
  "join sep [] = []"
| "join sep [x] = x"
| "join sep (x # y # ys) = x @ sep @ join sep (y # ys)"

section \<open>JavaScript numbers\<close>

text \<open>
  A number is NaN, an infinity, or a finite double, which is kept as the rational it
  denotes (the two zeros are one value: the code only tests them for truthiness).
\<close>

datatype jsnum = NaN | PosInf | NegInf | Num rat

definition num_truthy :: "jsnum \<Rightarrow> bool" where
  "num_truthy n = (n \<noteq> NaN \<and> n \<noteq> Num 0)"

subsection \<open>Rounding a decimal literal to a double\<close>

text \<open>The fraction \<open>p / q\<close> multiplied by \<open>2 ^ (- e)\<close>, still as a fraction.\<close>

definition scale2 :: "int \<Rightarrow> int \<times> int \<Rightarrow> int \<times> int" where
  "scale2 e f = (if 0 \<le> e then (fst f, snd f * 2 ^ nat e) else (fst f * 2 ^ nat (- e), snd f))"

text \<open>For \<open>0 < p\<close> and \<open>0 < q\<close>, the \<open>k\<close> with \<open>2 ^ k \<le> p / q < 2 ^ (k + 1)\<close>.\<close>

definition floor_log2 :: "int \<Rightarrow> int \<Rightarrow> int" where
  "floor_log2 p q =
     (let d = bitlen p - bitlen q;
          f = scale2 d (p, q)
      in if snd f \<le> fst f then d else d - 1)"

definition round_half_even :: "int \<times> int \<Rightarrow> int" where
  "round_half_even f =
     (let d = fst f div snd f; r = fst f mod snd f
      in if 2 * r < snd f then d
         else if snd f < 2 * r then d + 1
         else if even d then d else d + 1)"

text \<open>
  The double nearest to \<open>p / q\<close> (for \<open>0 \<le> p\<close> and \<open>0 < q\<close>) with the sign
  \<open>neg\<close>: round to nearest, ties to even, on 53 bits of mantissa; the exponent of the
  last mantissa bit is at least \<open>-1074\<close> (subnormals), and a result of \<open>2 ^ 1024\<close>
  or more is an infinity.
\<close>

definition to_double :: "bool \<Rightarrow> int \<Rightarrow> int \<Rightarrow> jsnum" where
  "to_double neg p q =
     (if p \<le> 0 \<or> q \<le> 0 then Num 0
      else
        let e = max (floor_log2 p q - 52) (- 1074);
            m = round_half_even (scale2 e (p, q));
            f = scale2 (- e) (m, 1)
        in if 2 ^ 1024 * snd f \<le> fst f then (if neg then NegInf else PosInf)
           else Num (of_int (if neg then - fst f else fst f) / of_int (snd f)))"

subsection \<open>\<open>Number(string)\<close>\<close>

definition digit_in :: "nat \<Rightarrow> char \<Rightarrow> nat option" where
  "digit_in radix c =
     (let n = (of_char c :: nat);
          v = (if 48 \<le> n \<and> n \<le> 57 then n - 48
               else if 97 \<le> n \<and> n \<le> 102 then n - 87
               else if 65 \<le> n \<and> n \<le> 70 then n - 55
               else 16)
      in if v < radix then Some v else None)"

definition is_digit :: "char \<Rightarrow> bool" where
  "is_digit c = (digit_in 10 c \<noteq> None)"

definition digits_value :: "nat \<Rightarrow> string \<Rightarrow> int" where
  "digits_value radix ds =
     foldl (\<lambda>a c. a * int radix + (case digit_in radix c of Some v \<Rightarrow> int v | None \<Rightarrow> 0)) 0 ds"

text \<open>\<open>0x\<close>, \<open>0o\<close> and \<open>0b\<close> literals: no sign, at least one digit of the radix.\<close>

definition radix_literal :: "string \<Rightarrow> jsnum option" where
  "radix_literal t =
     (case t of
        z # x # ds \<Rightarrow>
          (let radix = (if x = CHR ''x'' \<or> x = CHR ''X'' then 16
                        else if x = CHR ''o'' \<or> x = CHR ''O'' then 8
                        else if x = CHR ''b'' \<or> x = CHR ''B'' then 2 else (0::nat))
           in if z = CHR ''0'' \<and> radix \<noteq> 0
              then Some (if ds \<noteq> [] \<and> (\<forall>c \<in> set ds. digit_in radix c \<noteq> None)
                         then to_double False (digits_value radix ds) 1 else NaN)
              else None)
      | _ \<Rightarrow> None)"

text \<open>The exponent part: empty, or \<open>e\<close>/\<open>E\<close>, an optional sign and at least one digit.\<close>

definition exponent_part :: "string \<Rightarrow> int option" where
  "exponent_part r =
     (case r of
        [] \<Rightarrow> Some 0
      | c # r' \<Rightarrow>
          if c = CHR ''e'' \<or> c = CHR ''E'' then
            (let neg = (r' \<noteq> [] \<and> hd r' = CHR ''-'');
                 ds = (if r' \<noteq> [] \<and> (hd r' = CHR ''-'' \<or> hd r' = CHR ''+'') then tl r' else r')
             in if ds \<noteq> [] \<and> (\<forall>d \<in> set ds. is_digit d)
                then Some ((if neg then - 1 else 1) * digits_value 10 ds)
                else None)
          else None)"

text \<open>
  An unsigned decimal literal: \<open>Infinity\<close>, or digits with an optional fraction and
  exponent, with at least one digit before or after the point.
\<close>

definition decimal_literal :: "bool \<Rightarrow> string \<Rightarrow> jsnum" where
  "decimal_literal neg t =
     (if t = ''Infinity'' then (if neg then NegInf else PosInf)
      else
        let ip = takeWhile is_digit t;
            r1 = dropWhile is_digit t;
            dot = (r1 \<noteq> [] \<and> hd r1 = CHR ''.'');
            fp = (if dot then takeWhile is_digit (tl r1) else []);
            r2 = (if dot then dropWhile is_digit (tl r1) else r1)
        in if ip = [] \<and> fp = [] then NaN
           else (case exponent_part r2 of
                   None \<Rightarrow> NaN
                 | Some ex \<Rightarrow>
                     let n = digits_value 10 (ip @ fp);
                         k = ex - int (length fp)
                     in if 0 \<le> k then to_double neg (n * 10 ^ nat k) 1
                        else to_double neg n (10 ^ nat (- k))))"

definition Number_str :: "string \<Rightarrow> jsnum" where
  "Number_str s =
     (let t = trim s
      in if t = [] then Num 0
         else (case radix_literal t of
                 Some n \<Rightarrow> n
               | None \<Rightarrow>
                   if hd t = CHR ''-'' then decimal_literal True (tl t)
                   else if hd t = CHR ''+'' then decimal_literal False (tl t)
                   else decimal_literal False t))"

text \<open>\<open>Number(n).toString()\<close> of a natural number: its decimal digits.\<close>

fun show_nat :: "nat \<Rightarrow> string" where
  "show_nat n = (if n < 10 then [char_of (48 + n)] else show_nat (n div 10) @ [char_of (48 + n mod 10)])"

declare show_nat.simps [simp del]

section \<open>Configuration and errors\<close>

text \<open>\<open>process.env\<close>: a variable is unset (\<open>undefined\<close>) or a string.\<close>

type_synonym env = "string \<rightharpoonup> string"

text \<open>Truthiness of \<open>process.env.X\<close>: \<open>undefined\<close> and the empty string are falsy.\<close>

definition truthy_str :: "string option \<Rightarrow> bool" where
  "truthy_str v = (case v of None \<Rightarrow> False | Some s \<Rightarrow> s \<noteq> [])"

text \<open>
  A thrown value: an \<open>Error\<close> object with its \<open>name\<close> and \<open>message\<close>, or the
  \<open>ZodError\<close> of the validation library with its list of issues.
\<close>

datatype zod_issue =
    InvalidType "string list" string string
  | TooSmall "string list" nat
  | InvalidString "string list" string

datatype exn = Exn string string | ZodError "zod_issue list"

text \<open>The TypeError of a property read on \<open>undefined\<close> or \<open>null\<close>.\<close>

definition cannot_read :: "string \<Rightarrow> string \<Rightarrow> exn" where
  "cannot_read what prop =
     Exn ''TypeError''
       (''Cannot read properties of '' @ what @ '' (reading '' @ [CHR 0x27] @ prop @ [CHR 0x27] @ '')'')"

section \<open>The chat map and the route resolver (lib/telegram)\<close>

text \<open>
  \<open>CHAT_MAP\<close> is a plain object \<open>{}\<close>: its own properties are the parsed entries, and a
  read of any other key goes on to \<open>Object.prototype\<close>.
\<close>

type_synonym chat_map = "string \<rightharpoonup> jsnum"

datatype jsval = JsUndefined | JsNumber jsnum | JsInherited string

definition object_prototype_keys :: "string list" where
  "object_prototype_keys =
     [''constructor'', ''__defineGetter__'', ''__defineSetter__'', ''hasOwnProperty'',
      ''__lookupGetter__'', ''__lookupSetter__'', ''isPrototypeOf'', ''propertyIsEnumerable'',
      ''toString'', ''valueOf'', ''__proto__'', ''toLocaleString'']"

text \<open>
  \<open>map[k] = v\<close> for a number \<open>v\<close>: an own property, except that \<open>__proto__\<close> is the
  accessor of \<open>Object.prototype\<close>, whose setter ignores a value that is not an object.
\<close>

definition set_prop :: "chat_map \<Rightarrow> string \<Rightarrow> jsnum \<Rightarrow> chat_map" where
  "set_prop m k v = (if k = ''__proto__'' then m else m(k \<mapsto> v))"

text \<open>
  \<open>map[k]\<close>: the own property, else the member of \<open>Object.prototype\<close> of that name
  (a function, or the prototype object for \<open>__proto__\<close>), else \<open>undefined\<close>.
\<close>

definition get_prop :: "chat_map \<Rightarrow> string \<Rightarrow> jsval" where
  "get_prop m k =
     (case m k of
        Some v \<Rightarrow> JsNumber v
      | None \<Rightarrow> if k \<in> set object_prototype_keys then JsInherited k else JsUndefined)"

definition truthy :: "jsval \<Rightarrow> bool" where
  "truthy v = (case v of JsUndefined \<Rightarrow> False | JsNumber n \<Rightarrow> num_truthy n | JsInherited k \<Rightarrow> True)"

text \<open>
  The body of the loop of \<open>parseChatMap\<close> for one piece of the configuration string.
  \<open>const [code, chat] = p.split(":")\<close> leaves \<open>chat\<close> undefined when there is one
  piece only, and \<open>chat.trim()\<close> would then throw.
\<close>

definition parse_entry :: "string \<Rightarrow> chat_map \<Rightarrow> exn + chat_map" where
  "parse_entry part m =
     (let p = trim part
      in if p = [] \<or> \<not> includes_chr p CHR '':'' then Inr m
         else (case split_on CHR '':'' p of
                 code # chat # rest \<Rightarrow> Inr (set_prop m (trim code) (Number_str (trim chat)))
               | _ \<Rightarrow> Inl (cannot_read ''undefined'' ''trim'')))"

fun parse_entries :: "string list \<Rightarrow> chat_map \<Rightarrow> exn + chat_map" where
  "parse_entries [] m = Inr m"
| "parse_entries (part # parts) m =
     (case parse_entry part m of
        Inl e \<Rightarrow> Inl e
      | Inr m' \<Rightarrow> parse_entries parts m')"

definition parseChatMap :: "env \<Rightarrow> exn + chat_map" where
  "parseChatMap env =
     (let raw = (if truthy_str (env ''TELEGRAM_PROPERTY_CHAT_MAP'')
                 then the (env ''TELEGRAM_PROPERTY_CHAT_MAP'') else [])
      in parse_entries (split_on CHR '','' raw) Map.empty)"

record route =
  botToken :: "string option"
  chatId :: jsval

text \<open>\<open>Number(process.env.X)\<close>: \<open>Number(undefined)\<close> is NaN.\<close>

definition Number_env :: "string option \<Rightarrow> jsnum" where
  "Number_env v = (case v of None \<Rightarrow> NaN | Some s \<Rightarrow> Number_str s)"

text \<open>\<open>Number(process.env.X || d)\<close> for a numeric default \<open>d\<close>.\<close>

definition Number_env_or :: "string option \<Rightarrow> rat \<Rightarrow> jsnum" where
  "Number_env_or v d = (if truthy_str v then Number_str (the v) else Num d)"

definition resolveTelegramRoute :: "env \<Rightarrow> chat_map \<Rightarrow> string \<Rightarrow> route" where
  "resolveTelegramRoute env CHAT_MAP propertyCode =
     (if propertyCode = ''ALL'' then
        \<lparr>botToken = env ''TELEGRAM_CONSOLIDATED_BOT_TOKEN'',
         chatId = JsNumber (Number_env (env ''TELEGRAM_CONSOLIDATED_CHAT_ID''))\<rparr>
      else
        \<lparr>botToken = env ''TELEGRAM_DEFAULT_BOT_TOKEN'',
         chatId = (if truthy (get_prop CHAT_MAP propertyCode)
                   then get_prop CHAT_MAP propertyCode
                   else JsNumber (Number_env_or (env ''TELEGRAM_DEFAULT_CHAT_ID'') 0))\<rparr>)"

section \<open>The chat sender (lib/telegram)\<close>

text \<open>A parsed JSON value; an object is the list of its members as the text has them.\<close>

datatype json =
    JNull
  | JBool bool
  | JNum jsnum
  | JStr string
  | JArr "json list"
  | JObj "(string \<times> json) list"

text \<open>
  What the JavaScript runtime and the validation library compute and this development
  leaves open: the email pattern of \<open>z.string().email()\<close>, the rendering of the issue
  objects in the message of a \<open>ZodError\<close>, and the digits of a number that is not an
  integer of magnitude up to \<open>2 ^ 53\<close> (the shortest digits that read back as the same
  double).
\<close>

record runtime =
  zod_email :: "string \<Rightarrow> bool"
  zod_issues_text :: "zod_issue list \<Rightarrow> string"
  number_text :: "rat \<Rightarrow> string"

text \<open>\<open>JSON.parse\<close> keeps the last of several members of one name.\<close>

definition obj_get :: "(string \<times> json) list \<Rightarrow> string \<Rightarrow> json option" where
  "obj_get kvs k = map_of (rev kvs) k"

text \<open>
  \<open>data.k\<close> for a key \<open>k\<close> that no prototype has (\<open>ok\<close>, \<open>description\<close>): a
  TypeError on \<open>null\<close>, the member of an object, \<open>undefined\<close> on anything else.
\<close>

definition json_get :: "json \<Rightarrow> string \<Rightarrow> exn + json option" where
  "json_get data k =
     (case data of
        JNull \<Rightarrow> Inl (cannot_read ''null'' k)
      | JObj kvs \<Rightarrow> Inr (obj_get kvs k)
      | _ \<Rightarrow> Inr None)"

text \<open>\<open>data?.k\<close>: \<open>undefined\<close> on \<open>null\<close> too.\<close>

definition json_get_opt :: "json \<Rightarrow> string \<Rightarrow> json option" where
  "json_get_opt data k = (case json_get data k of Inl e \<Rightarrow> None | Inr v \<Rightarrow> v)"

definition truthy_json :: "json option \<Rightarrow> bool" where
  "truthy_json v =
     (case v of
        None \<Rightarrow> False
      | Some JNull \<Rightarrow> False
      | Some (JBool b) \<Rightarrow> b
      | Some (JNum n) \<Rightarrow> num_truthy n
      | Some (JStr s) \<Rightarrow> s \<noteq> []
      | Some (JArr xs) \<Rightarrow> True
      | Some (JObj kvs) \<Rightarrow> True)"

text \<open>
  \<open>Number.prototype.toString\<close>: the shortest digits that read back as the same double.
  The integers of magnitude up to \<open>2 ^ 53\<close> are doubles one apart or less, so for them
  these are their own decimal digits; beyond, shorter digits can round to the same double.
\<close>

definition Number_toString :: "runtime \<Rightarrow> jsnum \<Rightarrow> string" where
  "Number_toString rt n =
     (case n of
        NaN \<Rightarrow> ''NaN''
      | PosInf \<Rightarrow> ''Infinity''
      | NegInf \<Rightarrow> ''-Infinity''
      | Num q \<Rightarrow>
          if of_int \<lfloor>q\<rfloor> = q \<and> \<bar>q\<bar> \<le> 2 ^ 53
          then (if q < 0 then ''-'' else []) @ show_nat (nat \<bar>\<lfloor>q\<rfloor>\<bar>)
          else number_text rt q)"

text \<open>
  The string a template literal makes of a JSON value. An array joins the strings of its
  elements with commas (\<open>null\<close> as the empty string), from left to right. An object is
  \<open>[object Object]\<close> by the \<open>toString\<close> it inherits; an own member \<open>toString\<close> of a
  parsed object is no function, the inherited \<open>valueOf\<close> (or an own member of that name)
  gives no primitive either, and the conversion throws.
\<close>

fun ToString :: "runtime \<Rightarrow> json \<Rightarrow> exn + string"
and ToString_elements :: "runtime \<Rightarrow> json list \<Rightarrow> exn + string list" where
  "ToString rt JNull = Inr ''null''"
| "ToString rt (JBool b) = Inr (if b then ''true'' else ''false'')"
| "ToString rt (JNum n) = Inr (Number_toString rt n)"
| "ToString rt (JStr s) = Inr s"
| "ToString rt (JArr xs) =
     (case ToString_elements rt xs of
        Inl e \<Rightarrow> Inl e
      | Inr ss \<Rightarrow> Inr (join '','' ss))"
| "ToString rt (JObj kvs) =
     (if obj_get kvs ''toString'' \<noteq> None
      then Inl (Exn ''TypeError'' ''Cannot convert object to primitive value'')
      else Inr ''[object Object]'')"
| "ToString_elements rt [] = Inr []"
| "ToString_elements rt (x # xs) =
     (case (if x = JNull then Inr [] else ToString rt x) of
        Inl e \<Rightarrow> Inl e
      | Inr s \<Rightarrow>
          (case ToString_elements rt xs of
             Inl e \<Rightarrow> Inl e
           | Inr ss \<Rightarrow> Inr (s # ss)))"

record http_response =
  status :: nat
  statusText :: string
  body_json :: "exn + json"

text \<open>\<open>Response.ok\<close> of the Fetch standard: the status is in the range 200 to 299.\<close>

definition resp_ok :: "http_response \<Rightarrow> bool" where
  "resp_ok resp = (200 \<le> status resp \<and> status resp \<le> 299)"

text \<open>
  The object handed to \<open>JSON.stringify\<close> for the body of the request, and the request
  with that object as its \<open>payload\<close>.
\<close>

record send_message =
  chat_id :: jsval
  msg_text :: string
  parse_mode :: string

record http_request =
  url :: string
  http_method :: string
  headers :: "(string \<times> string) list"
  payload :: send_message

text \<open>\<open>fetch\<close>: the request is rejected with an error or answered.\<close>

type_synonym fetch = "http_request \<Rightarrow> exn + http_response"

definition sendMessage_request :: "string option \<Rightarrow> jsval \<Rightarrow> string \<Rightarrow> http_request" where
  "sendMessage_request token chat txt =
     \<lparr>url = ''https://api.telegram.org/bot'' @ (case token of None \<Rightarrow> ''undefined'' | Some t \<Rightarrow> t)
              @ ''/sendMessage'',
      http_method = ''POST'',
      headers = [(''content-type'', ''application/json'')],
      payload = \<lparr>chat_id = chat, msg_text = txt, parse_mode = ''HTML''\<rparr>\<rparr>"

text \<open>
  What the failure branch throws: \<open>desc\<close> is \<open>data?.description || resp.statusText\<close>, and
  the template literal of the message converts it to a string, which can throw itself.
\<close>

definition telegram_failed :: "runtime \<Rightarrow> http_response \<Rightarrow> json \<Rightarrow> exn" where
  "telegram_failed rt resp data =
     (let desc = (if truthy_json (json_get_opt data ''description'')
                  then ToString rt (the (json_get_opt data ''description''))
                  else Inr (statusText resp))
      in case desc of
           Inl e \<Rightarrow> e
         | Inr d \<Rightarrow> Exn ''Error'' (''Telegram failed: '' @ show_nat (status resp) @ '' '' @ d))"

text \<open>
  The part of \<open>telegramSendText\<close> after the response has arrived:
  \<open>resp.json().catch(() => ({}))\<close>, then the test \<open>!resp.ok || data.ok !== true\<close>, whose
  right operand is read only when the left one is false.
\<close>

definition check_response :: "runtime \<Rightarrow> http_response \<Rightarrow> exn + json" where
  "check_response rt resp =
     (let data = (case body_json resp of Inl e \<Rightarrow> JObj [] | Inr d \<Rightarrow> d)
      in if \<not> resp_ok resp then Inl (telegram_failed rt resp data)
         else (case json_get data ''ok'' of
                 Inl e \<Rightarrow> Inl e
               | Inr v \<Rightarrow>
                   if v \<noteq> Some (JBool True) then Inl (telegram_failed rt resp data)
                   else Inr data))"

section \<open>Outbound calls\<close>

record transport_options =
  host :: string
  port :: jsnum
  secure :: bool
  auth_user :: string
  auth_pass :: string

record mail =
  mail_from :: "string option"
  mail_to :: "string option"
  subject :: "string option"
  html :: "string option"
  mail_text :: "string option"

text \<open>
  What a call leaves behind, in order: a request to the chat-bot API, a message handed to
  an SMTP transport, a line of \<open>console.error\<close>.
\<close>

datatype event =
    Fetch http_request
  | SendMail transport_options mail
  | ConsoleError exn

definition telegramSendText ::
    "runtime \<Rightarrow> fetch \<Rightarrow> string option \<Rightarrow> jsval \<Rightarrow> string \<Rightarrow> (exn + json) \<times> event list" where
  "telegramSendText rt fetch token chat txt =
     (let req = sendMessage_request token chat txt
      in (case fetch req of
            Inl e \<Rightarrow> Inl e
          | Inr resp \<Rightarrow> check_response rt resp,
          [Fetch req]))"

section \<open>The email sender (lib/email)\<close>

definition createTransport :: "env \<Rightarrow> exn + transport_options" where
  "createTransport env =
     (let h = env ''SMTP_HOST'';
          p = Number_env_or (env ''SMTP_PORT'') 587;
          user = env ''SMTP_USER'';
          pass = env ''SMTP_PASS''
      in if \<not> truthy_str h \<or> \<not> truthy_str user \<or> \<not> truthy_str pass
         then Inl (Exn ''Error'' ''SMTP env missing'')
         else Inr \<lparr>host = the h, port = p, secure = (p = Num 465),
                   auth_user = the user, auth_pass = the pass\<rparr>)"

text \<open>\<open>transporter.sendMail\<close>: the message is sent, or the transport throws.\<close>

type_synonym sendMail = "transport_options \<Rightarrow> mail \<Rightarrow> exn option"

text \<open>
  The argument is the object literal of the caller, as the map of its properties; the
  parameter \<open>{ to, subject, html, text }\<close> reads four of them.
\<close>

definition sendGuestEmail ::
    "env \<Rightarrow> sendMail \<Rightarrow> (string \<rightharpoonup> string) \<Rightarrow> (exn + unit) \<times> event list" where
  "sendGuestEmail env sendMail arg =
     (let sender = (if truthy_str (env ''SMTP_FROM'') then env ''SMTP_FROM'' else env ''SMTP_USER'')
      in case createTransport env of
           Inl e \<Rightarrow> (Inl e, [])
         | Inr transporter \<Rightarrow>
             (let m = \<lparr>mail_from = sender, mail_to = arg ''to'', subject = arg ''subject'',
                       html = arg ''html'', mail_text = arg ''text''\<rparr>
              in (case sendMail transporter m of
                    Some e \<Rightarrow> Inl e
                  | None \<Rightarrow> Inr (),
                  [SendMail transporter m])))"

section \<open>The booking handler (app/api/booking/route.js)\<close>

subsection \<open>\<open>BookingSchema\<close>\<close>

text \<open>
  The \<open>length\<close> of a JavaScript string counts UTF-16 code units: one for each code point
  of one to three UTF-8 bytes, two for each of four bytes. A lead or ASCII byte is below
  \<open>0x80\<close> or from \<open>0xC0\<close>; the lead byte of four is from \<open>0xF0\<close>.
\<close>

definition js_length :: "string \<Rightarrow> nat" where
  "js_length s =
     length (filter (\<lambda>c. (of_char c :: nat) < 128 \<or> 192 \<le> (of_char c :: nat)) s)
     + length (filter (\<lambda>c. 240 \<le> (of_char c :: nat)) s)"

text \<open>The type the library reports for the value it received.\<close>

definition zod_type :: "json option \<Rightarrow> string" where
  "zod_type v =
     (case v of
        None \<Rightarrow> ''undefined''
      | Some JNull \<Rightarrow> ''null''
      | Some (JBool b) \<Rightarrow> ''boolean''
      | Some (JNum n) \<Rightarrow> (if n = NaN then ''nan'' else ''number'')
      | Some (JStr s) \<Rightarrow> ''string''
      | Some (JArr xs) \<Rightarrow> ''array''
      | Some (JObj kvs) \<Rightarrow> ''object'')"

text \<open>\<open>z.string().min(n)\<close> on the member \<open>key\<close>.\<close>

definition z_string_min :: "nat \<Rightarrow> string \<Rightarrow> json option \<Rightarrow> zod_issue list + string" where
  "z_string_min n key v =
     (case v of
        Some (JStr s) \<Rightarrow> if js_length s < n then Inl [TooSmall [key] n] else Inr s
      | _ \<Rightarrow> Inl [InvalidType [key] ''string'' (zod_type v)])"

text \<open>\<open>z.string().email()\<close>.\<close>

definition z_string_email :: "runtime \<Rightarrow> string \<Rightarrow> json option \<Rightarrow> zod_issue list + string" where
  "z_string_email rt key v =
     (case v of
        Some (JStr s) \<Rightarrow> if zod_email rt s then Inr s else Inl [InvalidString [key] ''email'']
      | _ \<Rightarrow> Inl [InvalidType [key] ''string'' (zod_type v)])"

text \<open>\<open>z.string().optional().default("")\<close>: the default replaces a missing member.\<close>

definition z_string_default :: "string \<Rightarrow> string \<Rightarrow> json option \<Rightarrow> zod_issue list + string" where
  "z_string_default d key v =
     (case v of
        None \<Rightarrow> Inr d
      | Some (JStr s) \<Rightarrow> Inr s
      | _ \<Rightarrow> Inl [InvalidType [key] ''string'' (zod_type v)])"

definition issues_of :: "zod_issue list + string \<Rightarrow> zod_issue list" where
  "issues_of r = (case r of Inl is \<Rightarrow> is | Inr v \<Rightarrow> [])"

definition value_of :: "zod_issue list + string \<Rightarrow> string" where
  "value_of r = (case r of Inl is \<Rightarrow> [] | Inr v \<Rightarrow> v)"

record booking =
  propertyCode :: string
  roomId :: string
  guestName :: string
  phone :: string
  email :: string
  checkIn :: string
  checkOut :: string
  booking_note :: string

text \<open>
  \<open>BookingSchema.parse\<close>: every member of the shape is checked, in the order of the shape,
  and the issues of all of them are thrown together; members the shape does not name are
  dropped.
\<close>

definition BookingSchema_parse :: "runtime \<Rightarrow> json \<Rightarrow> zod_issue list + booking" where
  "BookingSchema_parse rt input =
     (case input of
        JObj kvs \<Rightarrow>
          (let pc = z_string_min 3 ''propertyCode'' (obj_get kvs ''propertyCode'');
               ri = z_string_min 1 ''roomId'' (obj_get kvs ''roomId'');
               gn = z_string_min 2 ''guestName'' (obj_get kvs ''guestName'');
               ph = z_string_min 6 ''phone'' (obj_get kvs ''phone'');
               em = z_string_email rt ''email'' (obj_get kvs ''email'');
               ci = z_string_min 8 ''checkIn'' (obj_get kvs ''checkIn'');
               co = z_string_min 8 ''checkOut'' (obj_get kvs ''checkOut'');
               nt = z_string_default [] ''note'' (obj_get kvs ''note'');
               issues = issues_of pc @ issues_of ri @ issues_of gn @ issues_of ph @ issues_of em
                        @ issues_of ci @ issues_of co @ issues_of nt
           in if issues = []
              then Inr \<lparr>propertyCode = value_of pc, roomId = value_of ri, guestName = value_of gn,
                        phone = value_of ph, email = value_of em, checkIn = value_of ci,
                        checkOut = value_of co, booking_note = value_of nt\<rparr>
              else Inl issues)
      | _ \<Rightarrow> Inl [InvalidType [] ''object'' (zod_type (Some input))])"

subsection \<open>\<open>POST\<close>\<close>

text \<open>The lines of the chat message; \<open>filter(Boolean)\<close> drops the empty note line.\<close>

definition booking_message :: "booking \<Rightarrow> string" where
  "booking_message data =
     join [CHR 0x0A]
       (filter (\<lambda>l. l \<noteq> [])
          [''<b>NEW BOOKING REQUEST</b>'',
           ''<b>Property:</b> '' @ propertyCode data,
           ''<b>Room:</b> '' @ roomId data,
           ''<b>Name:</b> '' @ guestName data,
           ''<b>Phone:</b> '' @ phone data,
           ''<b>Email:</b> '' @ email data,
           ''<b>Dates:</b> '' @ checkIn data @ '' '' @ [CHR 0xE2, CHR 0x86, CHR 0x92] @ '' '' @ checkOut data,
           if booking_note data \<noteq> [] then ''<b>Note:</b> '' @ booking_note data else []])"

text \<open>The message of a thrown value; that of a \<open>ZodError\<close> is the JSON array of its issues.\<close>

definition exn_message :: "runtime \<Rightarrow> exn \<Rightarrow> string" where
  "exn_message rt e =
     (case e of
        Exn name msg \<Rightarrow> msg
      | ZodError issues \<Rightarrow> ''['' @ zod_issues_text rt issues @ '']'')"

definition exn_name :: "exn \<Rightarrow> string" where
  "exn_name e = (case e of Exn name msg \<Rightarrow> name | ZodError issues \<Rightarrow> ''ZodError'')"

text \<open>
  \<open>String(e?.message || e)\<close>: the message, or for an empty message what
  \<open>Error.prototype.toString\<close> gives then, the name.
\<close>

definition error_text :: "runtime \<Rightarrow> exn \<Rightarrow> string" where
  "error_text rt e = (if exn_message rt e \<noteq> [] then exn_message rt e else exn_name e)"

record response =
  http_status :: nat
  ok :: bool
  error :: "string option"

text \<open>The \<open>catch\<close> block, after the calls \<open>trace\<close> that were made before the throw.\<close>

definition catch_block :: "runtime \<Rightarrow> exn \<Rightarrow> event list \<Rightarrow> response \<times> event list" where
  "catch_block rt e trace =
     (\<lparr>http_status = 400, ok = False, error = Some (error_text rt e)\<rparr>, trace @ [ConsoleError e])"

text \<open>
  The handler, for the outcome \<open>req\<close> of \<open>req.json()\<close>. \<open>sendTelegramMessage\<close> is
  imported from lib/telegram and is a parameter here.
\<close>

definition POST ::
    "runtime \<Rightarrow> env \<Rightarrow> chat_map \<Rightarrow> (route \<Rightarrow> string \<Rightarrow> (exn + json) \<times> event list) \<Rightarrow> sendMail
       \<Rightarrow> exn + json \<Rightarrow> response \<times> event list" where
  "POST rt env CHAT_MAP sendTelegramMessage sendMail req =
     (case req of
        Inl e \<Rightarrow> catch_block rt e []
      | Inr body \<Rightarrow>
          (case BookingSchema_parse rt body of
             Inl issues \<Rightarrow> catch_block rt (ZodError issues) []
           | Inr data \<Rightarrow>
               (let route = resolveTelegramRoute env CHAT_MAP (propertyCode data);
                    msg = booking_message data;
                    sent = sendTelegramMessage route msg
                in case fst sent of
                     Inl e \<Rightarrow> catch_block rt e (snd sent)
                   | Inr r \<Rightarrow>
                       (let mailed = sendGuestEmail env sendMail
                                       [''to'' \<mapsto> email data,
                                        ''guestName'' \<mapsto> guestName data,
                                        ''propertyCode'' \<mapsto> propertyCode data,
                                        ''roomId'' \<mapsto> roomId data,
                                        ''checkIn'' \<mapsto> checkIn data,
                                        ''checkOut'' \<mapsto> checkOut data]
                        in case fst mailed of
                             Inl e \<Rightarrow> catch_block rt e (snd sent @ snd mailed)
                           | Inr u \<Rightarrow>
                               (\<lparr>http_status = 200, ok = True, error = None\<rparr>,
                                snd sent @ snd mailed)))))"

text \<open>
  Modelled from the spec: \<open>sendTelegramMessage\<close>, which route.js imports from
  lib/telegram and calls with the route and the message; the module in the sources exports
  \<open>telegramSendText\<close> only. By the specification the handler sends the chat message through
  the chat notification sender, given the bot token and chat id of the route and the text.
\<close>

definition sendTelegramMessage ::
    "runtime \<Rightarrow> fetch \<Rightarrow> route \<Rightarrow> string \<Rightarrow> (exn + json) \<times> event list" where
  "sendTelegramMessage rt fetch r msg = telegramSendText rt fetch (botToken r) (chatId r) msg"

subsection \<open>The payloads the specification rejects\<close>

text \<open>
  In the words of the specification, a booking request has the required fields
  propertyCode, roomId, guestName, phone, checkIn and checkOut, each a string of a minimum
  length, the required field email, a string of email syntax, and the optional string
  note. A payload violates this when it is no object at all (it has none of the fields),
  or a required field is missing, is not a string, is shorter than its minimum length or
  is not of email syntax, or the note is there and is not a string.
\<close>

definition min_lengths :: "(string \<times> nat) list" where
  "min_lengths =
     [(''propertyCode'', 3), (''roomId'', 1), (''guestName'', 2), (''phone'', 6),
      (''checkIn'', 8), (''checkOut'', 8)]"

text \<open>The field is missing, is not a string, or is shorter than its minimum length.\<close>

definition bad_field :: "(string \<times> json) list \<Rightarrow> string \<times> nat \<Rightarrow> bool" where
  "bad_field kvs fn =
     (case obj_get kvs (fst fn) of
        Some (JStr s) \<Rightarrow> js_length s < snd fn
      | _ \<Rightarrow> True)"

text \<open>The email is missing, is not a string, or is not of email syntax.\<close>

definition bad_email :: "runtime \<Rightarrow> (string \<times> json) list \<Rightarrow> bool" where
  "bad_email rt kvs =
     (case obj_get kvs ''email'' of
        Some (JStr s) \<Rightarrow> \<not> zod_email rt s
      | _ \<Rightarrow> True)"

text \<open>The note is there and is not a string.\<close>

definition bad_note :: "(string \<times> json) list \<Rightarrow> bool" where
  "bad_note kvs =
     (case obj_get kvs ''note'' of
        None \<Rightarrow> False
      | Some (JStr s) \<Rightarrow> False
      | _ \<Rightarrow> True)"

definition invalid_payload :: "runtime \<Rightarrow> json \<Rightarrow> bool" where
  "invalid_payload rt input =
     (case input of
        JObj kvs \<Rightarrow> list_ex (bad_field kvs) min_lengths \<or> bad_email rt kvs \<or> bad_note kvs
      | _ \<Rightarrow> True)"

subsection \<open>The SMTP configuration the specification calls missing\<close>

text \<open>
  In the words of the specification: one of host, user and password is missing, where a
  value is missing when the variable is unset or set to the empty string.
\<close>

definition smtp_missing :: "env \<Rightarrow> bool" where
  "smtp_missing env =
     list_ex (\<lambda>k. env k = None \<or> env k = Some []) [''SMTP_HOST'', ''SMTP_USER'', ''SMTP_PASS'']"

section \<open>Example configurations\<close>

definition example_runtime :: runtime where
  "example_runtime =
     \<lparr>zod_email = (\<lambda>s. CHR ''@'' \<in> set s), zod_issues_text = (\<lambda>issues. []),
      number_text = (\<lambda>q. [])\<rparr>"

definition example_payload :: json where
  "example_payload =
     JObj [(''propertyCode'', JStr ''B22''), (''roomId'', JStr ''101''),
           (''guestName'', JStr ''Jane Doe''), (''phone'', JStr ''+15551234567''),
           (''email'', JStr ''jane@example.com''), (''checkIn'', JStr ''2024-06-01''),
           (''checkOut'', JStr ''2024-06-05''), (''note'', JStr [])]"

definition example_booking :: booking where
  "example_booking =
     \<lparr>propertyCode = ''B22'', roomId = ''101'', guestName = ''Jane Doe'', phone = ''+15551234567'',
      email = ''jane@example.com'', checkIn = ''2024-06-01'', checkOut = ''2024-06-05'',
      booking_note = []\<rparr>"

definition example_env :: env where
  "example_env =
     [''SMTP_HOST'' \<mapsto> ''smtp.example.com'', ''SMTP_USER'' \<mapsto> ''desk@example.com'',
      ''SMTP_PASS'' \<mapsto> ''secret'', ''TELEGRAM_DEFAULT_BOT_TOKEN'' \<mapsto> ''tok'']"

definition chat_not_found :: http_response where
  "chat_not_found =
     \<lparr>status = 200, statusText = ''OK'',
      body_json = Inr (JObj [(''ok'', JBool False), (''description'', JStr ''chat not found'')])\<rparr>"

text \<open>A chat sender and a transport that succeed and leave no trace.\<close>

definition chat_sent :: "route \<Rightarrow> string \<Rightarrow> (exn + json) \<times> event list" where
  "chat_sent r msg = (Inr (JObj [(''ok'', JBool True)]), [])"

definition mail_sent :: sendMail where
  "mail_sent t m = None"

section \<open>Evaluation of the string and number functions\<close>

lemma trim_empty: "trim [] = []" by code_simp
lemma trim_A111: "trim ''A:111'' = ''A:111''" by code_simp
lemma trim_B222: "trim '' B:222'' = ''B:222''" by code_simp
lemma trim_oops: "trim '' oops '' = ''oops''" by code_simp
lemma trim_ABC0: "trim ''ABC:0'' = ''ABC:0''" by code_simp
lemma trim_A: "trim ''A'' = ''A''" by code_simp
lemma trim_B: "trim ''B'' = ''B''" by code_simp
lemma trim_ABC: "trim ''ABC'' = ''ABC''" by code_simp
lemma trim_111: "trim ''111'' = ''111''" by code_simp
lemma trim_222: "trim ''222'' = ''222''" by code_simp
lemma trim_0: "trim ''0'' = ''0''" by code_simp
lemma Number_111: "Number_str ''111'' = Num 111" by code_simp
lemma Number_222: "Number_str ''222'' = Num 222" by code_simp
lemma Number_0: "Number_str ''0'' = Num 0" by code_simp
lemma Number_999: "Number_str ''999'' = Num 999" by code_simp
lemma Number_465: "Number_str ''465'' = Num 465" by code_simp
lemma show_200: "show_nat 200 = ''200''" by code_simp

lemmas trims = trim_empty trim_A111 trim_B222 trim_oops trim_ABC0 trim_A trim_B trim_ABC
  trim_111 trim_222 trim_0

lemmas Numbers = Number_111 Number_222 Number_0 Number_999 Number_465

text \<open>Trimming only removes characters.\<close>

lemma set_strip_lead: "set (strip_lead seqs s) \<subseteq> set s"
proof (induction seqs s rule: strip_lead.induct)
  case (1 seqs s)
  show ?case
  proof (cases "lead_len seqs s = 0")
    case True
    then show ?thesis by (subst strip_lead.simps) simp
  next
    case False
    with 1 have "set (strip_lead seqs (drop (lead_len seqs s) s)) \<subseteq> set (drop (lead_len seqs s) s)"
      by simp
    also have "\<dots> \<subseteq> set s"
      by (rule set_drop_subset)
    finally show ?thesis using False by (subst strip_lead.simps) simp
  qed
qed

lemma set_trim: "set (trim s) \<subseteq> set s"
proof -
  have "set (trim s) \<subseteq> set (strip_lead js_whitespace s)"
    using set_strip_lead [of "map rev js_whitespace" "rev (strip_lead js_whitespace s)"]
    by (simp add: trim_def trimEnd_def trimStart_def)
  also have "\<dots> \<subseteq> set s"
    by (rule set_strip_lead)
  finally show ?thesis .
qed

section \<open>Splitting\<close>

lemma split_on_nonempty: "split_on c s \<noteq> []"
  by (induction s) (auto split: list.splits)

lemma split_on_two: "c \<in> set s \<Longrightarrow> \<exists>a b rest. split_on c s = a # b # rest"
proof (induction s)
  case Nil
  then show ?case by simp
next
  case (Cons x s)
  show ?case
  proof (cases "x = c")
    case True
    then show ?thesis using split_on_nonempty [of c s] by (cases "split_on c s") auto
  next
    case False
    with Cons show ?thesis by auto
  qed
qed

lemma split_on_append: "c \<notin> set x \<Longrightarrow> split_on c (x @ c # r) = x # split_on c r"
  by (induction x) auto

lemma split_on_plain: "c \<notin> set x \<Longrightarrow> split_on c x = [x]"
  by (induction x) auto

text \<open>Splitting at the separator undoes joining pieces that are free of it.\<close>

lemma split_on_join:
  "parts \<noteq> [] \<Longrightarrow> \<forall>x \<in> set parts. c \<notin> set x \<Longrightarrow> split_on c (join [c] parts) = parts"
proof (induction "[c]" parts rule: join.induct)
  case 1
  then show ?case by simp
next
  case (2 x)
  then show ?case by (simp add: split_on_plain)
next
  case (3 x y ys)
  then show ?case by (simp add: split_on_append)
qed

section \<open>\<open>parseChatMap\<close>\<close>

lemma parse_entry_total: "\<exists>m'. parse_entry part m = Inr m'"
proof (cases "trim part = [] \<or> CHR '':'' \<notin> set (trim part)")
  case True
  then show ?thesis by (auto simp: parse_entry_def includes_chr_def)
next
  case False
  then obtain a b rest where "split_on CHR '':'' (trim part) = a # b # rest"
    using split_on_two by blast
  with False show ?thesis by (simp add: parse_entry_def includes_chr_def)
qed

lemma parse_entries_total: "\<exists>m'. parse_entries parts m = Inr m'"
proof (induction parts arbitrary: m)
  case Nil
  show ?case by simp
next
  case (Cons part parts)
  obtain m1 where "parse_entry part m = Inr m1" using parse_entry_total by blast
  with Cons show ?case by simp
qed

lemma parse_entry_skip:
  assumes "trim e = [] \<or> CHR '':'' \<notin> set e"
  shows "parse_entry e m = Inr m"
proof -
  from assms have "trim e = [] \<or> CHR '':'' \<notin> set (trim e)"
    using set_trim [of e] by auto
  then show ?thesis by (auto simp: parse_entry_def includes_chr_def)
qed

lemma parse_entries_skip:
  "trim e = [] \<or> CHR '':'' \<notin> set e \<Longrightarrow>
   parse_entries (xs @ e # ys) m = parse_entries (xs @ ys) m"
proof (induction xs arbitrary: m)
  case Nil
  then show ?case by (simp add: parse_entry_skip)
next
  case (Cons x xs)
  then show ?case by (simp split: sum.splits)
qed

lemma parse_entries_example:
  "parse_entries [''A:111'', '' B:222''] Map.empty = Inr [''A'' \<mapsto> Num 111, ''B'' \<mapsto> Num 222]"
  by (simp add: parse_entry_def trims Numbers includes_chr_def set_prop_def)

lemma parseChatMap_example:
  "parseChatMap [''TELEGRAM_PROPERTY_CHAT_MAP'' \<mapsto> ''A:111, B:222'']
     = Inr [''A'' \<mapsto> Num 111, ''B'' \<mapsto> Num 222]"
  using parse_entries_example by (simp add: parseChatMap_def truthy_str_def)

text \<open>
  C6. \<open>parseChatMap\<close> maps the configuration string \<open>A:111, B:222\<close> to the map of \<open>A\<close>
  to 111 and \<open>B\<close> to 222. For every configuration it returns a map and throws nothing.
  And for every configuration string, given as its comma-separated entries, an entry
  \<open>e\<close> that is empty after trimming or has no colon contributes nothing: the result is
  what the loop makes of the other entries.
\<close>

theorem parseChatMap_entries:
  "parseChatMap [''TELEGRAM_PROPERTY_CHAT_MAP'' \<mapsto> ''A:111, B:222'']
     = Inr [''A'' \<mapsto> Num 111, ''B'' \<mapsto> Num 222]
   \<and> (\<exists>m. parseChatMap env = Inr m)
   \<and> ((\<forall>x \<in> set (xs @ e # ys). CHR '','' \<notin> set x)
        \<and> (trim e = [] \<or> CHR '':'' \<notin> set e)
      \<longrightarrow> parseChatMap (env(''TELEGRAM_PROPERTY_CHAT_MAP'' \<mapsto> join '','' (xs @ e # ys)))
            = parse_entries (xs @ ys) Map.empty)"
proof (intro conjI impI)
  show "parseChatMap [''TELEGRAM_PROPERTY_CHAT_MAP'' \<mapsto> ''A:111, B:222'']
          = Inr [''A'' \<mapsto> Num 111, ''B'' \<mapsto> Num 222]"
    by (rule parseChatMap_example)
next
  show "\<exists>m. parseChatMap env = Inr m"
    unfolding parseChatMap_def Let_def by (rule parse_entries_total)
next
  assume a: "(\<forall>x \<in> set (xs @ e # ys). CHR '','' \<notin> set x)
             \<and> (trim e = [] \<or> CHR '':'' \<notin> set e)"
  let ?raw = "join '','' (xs @ e # ys)"
  have split: "split_on CHR '','' ?raw = xs @ e # ys"
    using a split_on_join [of "xs @ e # ys" "CHR '',''"] by simp
  moreover have "split_on CHR '','' [] = xs @ e # ys" if "?raw = []"
    using that split by simp
  ultimately have "parseChatMap (env(''TELEGRAM_PROPERTY_CHAT_MAP'' \<mapsto> ?raw))
                     = parse_entries (xs @ e # ys) Map.empty"
    by (simp add: parseChatMap_def truthy_str_def)
  with a show "parseChatMap (env(''TELEGRAM_PROPERTY_CHAT_MAP'' \<mapsto> ?raw))
                 = parse_entries (xs @ ys) Map.empty"
    by (simp add: parse_entries_skip)
qed

text \<open>The entry \<open>oops\<close> between the two of the example leaves the map of the example.\<close>

theorem parseChatMap_entries_witness:
  "parseChatMap [''TELEGRAM_PROPERTY_CHAT_MAP'' \<mapsto> ''A:111, oops , B:222'']
     = Inr [''A'' \<mapsto> Num 111, ''B'' \<mapsto> Num 222]"
proof -
  have h: "(\<forall>x \<in> set ([''A:111''] @ '' oops '' # ['' B:222'']). CHR '','' \<notin> set x)
           \<and> (trim '' oops '' = [] \<or> CHR '':'' \<notin> set '' oops '')"
    by simp
  have "parseChatMap (Map.empty(''TELEGRAM_PROPERTY_CHAT_MAP'' \<mapsto>
            join '','' ([''A:111''] @ '' oops '' # ['' B:222''])))
          = parse_entries ([''A:111''] @ ['' B:222'']) Map.empty"
    using parseChatMap_entries [of Map.empty "[''A:111'']" "'' oops ''" "['' B:222'']"] h
    by blast
  with parse_entries_example show ?thesis by simp
qed

section \<open>\<open>resolveTelegramRoute\<close>\<close>


text \<open>
  C4, as the code has it. For a property code other than \<open>ALL\<close> that the map holds with
  a value that is neither 0 nor NaN, the resolver returns that value with the default bot
  token.
\<close>

theorem resolve_mapped:
  "code \<noteq> ''ALL'' \<Longrightarrow> cm code = Some v \<Longrightarrow> v \<noteq> NaN \<Longrightarrow> v \<noteq> Num 0 \<Longrightarrow>
   resolveTelegramRoute env cm code =
     \<lparr>botToken = env ''TELEGRAM_DEFAULT_BOT_TOKEN'', chatId = JsNumber v\<rparr>"
  by (simp add: resolveTelegramRoute_def get_prop_def truthy_def num_truthy_def)

theorem resolve_mapped_witness:
  "resolveTelegramRoute [''TELEGRAM_DEFAULT_BOT_TOKEN'' \<mapsto> ''tok''] [''B22'' \<mapsto> Num 555] ''B22''
     = \<lparr>botToken = Some ''tok'', chatId = JsNumber (Num 555)\<rparr>"
  using resolve_mapped [of "''B22''" "[''B22'' \<mapsto> Num 555]" "Num 555"
                           "[''TELEGRAM_DEFAULT_BOT_TOKEN'' \<mapsto> ''tok'']"]
  by simp

text \<open>
  C4 as stated fails where the mapped chat id is 0: with the configuration \<open>ABC:0\<close> and
  the default chat id 999, the map holds \<open>ABC\<close> with 0 and the resolver returns 999.
\<close>

theorem resolve_mapped_zero_counterexample:
  "''ABC'' \<noteq> ''ALL''
   \<and> parseChatMap [''TELEGRAM_PROPERTY_CHAT_MAP'' \<mapsto> ''ABC:0'', ''TELEGRAM_DEFAULT_CHAT_ID'' \<mapsto> ''999'']
       = Inr [''ABC'' \<mapsto> Num 0]
   \<and> chatId (resolveTelegramRoute
               [''TELEGRAM_PROPERTY_CHAT_MAP'' \<mapsto> ''ABC:0'', ''TELEGRAM_DEFAULT_CHAT_ID'' \<mapsto> ''999'']
               [''ABC'' \<mapsto> Num 0] ''ABC'')
       = JsNumber (Num 999)
   \<and> chatId (resolveTelegramRoute
               [''TELEGRAM_PROPERTY_CHAT_MAP'' \<mapsto> ''ABC:0'', ''TELEGRAM_DEFAULT_CHAT_ID'' \<mapsto> ''999'']
               [''ABC'' \<mapsto> Num 0] ''ABC'')
       \<noteq> JsNumber (Num 0)"
  by (simp add: parseChatMap_def truthy_str_def parse_entry_def trims Numbers
                includes_chr_def set_prop_def resolveTelegramRoute_def get_prop_def
                truthy_def num_truthy_def Number_env_or_def)

text \<open>A mapped 0 or NaN is passed over for the default chat id.\<close>

lemma resolve_mapped_falsy:
  "code \<noteq> ''ALL'' \<Longrightarrow> cm code = Some v \<Longrightarrow> v = NaN \<or> v = Num 0 \<Longrightarrow>
   resolveTelegramRoute env cm code =
     \<lparr>botToken = env ''TELEGRAM_DEFAULT_BOT_TOKEN'',
      chatId = JsNumber (Number_env_or (env ''TELEGRAM_DEFAULT_CHAT_ID'') 0)\<rparr>"
  by (auto simp: resolveTelegramRoute_def get_prop_def truthy_def num_truthy_def)

text \<open>
  C5 at the property code \<open>constructor\<close>, with an empty chat map and the default chat id
  999: the code is not in the map, and the resolver returns the member of
  \<open>Object.prototype\<close> of that name as the chat id, not 999.
\<close>

theorem resolve_inherited_key:
  "parseChatMap [''TELEGRAM_DEFAULT_CHAT_ID'' \<mapsto> ''999''] = Inr Map.empty
   \<and> resolveTelegramRoute [''TELEGRAM_DEFAULT_CHAT_ID'' \<mapsto> ''999''] Map.empty ''constructor''
       = \<lparr>botToken = None, chatId = JsInherited ''constructor''\<rparr>"
  by (simp add: parseChatMap_def truthy_str_def parse_entry_def trims
                resolveTelegramRoute_def get_prop_def truthy_def object_prototype_keys_def)

text \<open>
  For a code that is neither in the map nor a name of \<open>Object.prototype\<close>, the resolver
  returns the default chat id, or 0 when none is configured.
\<close>

lemma resolve_unmapped:
  "code \<noteq> ''ALL'' \<Longrightarrow> cm code = None \<Longrightarrow> code \<notin> set object_prototype_keys \<Longrightarrow>
   resolveTelegramRoute env cm code =
     \<lparr>botToken = env ''TELEGRAM_DEFAULT_BOT_TOKEN'',
      chatId = JsNumber (if env ''TELEGRAM_DEFAULT_CHAT_ID'' = None
                            \<or> env ''TELEGRAM_DEFAULT_CHAT_ID'' = Some []
                         then Num 0 else Number_str (the (env ''TELEGRAM_DEFAULT_CHAT_ID'')))\<rparr>"
  by (auto simp: resolveTelegramRoute_def get_prop_def truthy_def Number_env_or_def truthy_str_def)

section \<open>The chat sender\<close>

text \<open>
  C7 at the answer HTTP 200 with the body \<open>null\<close>: \<open>data.ok\<close> is read on \<open>null\<close>, and
  the error that is raised is the TypeError of that read, whose message holds neither the
  status nor a description or status text.
\<close>

theorem telegramSendText_null_body:
  "telegramSendText rt (\<lambda>req. Inr \<lparr>status = 200, statusText = ''OK'', body_json = Inr JNull\<rparr>)
     token chat txt
   = (Inl (Exn ''TypeError''
             (''Cannot read properties of null (reading '' @ [CHR 0x27] @ ''ok'' @ [CHR 0x27] @ '')'')),
      [Fetch (sendMessage_request token chat txt)])"
  by (simp add: telegramSendText_def check_response_def resp_ok_def json_get_def cannot_read_def)

text \<open>
  For every answer whose body is not \<open>null\<close>: an error is raised exactly when the status
  is outside 200 to 299 or the member \<open>ok\<close> of the body is not \<open>true\<close>; otherwise the
  parsed body is returned. A body that is not JSON counts as \<open>{}\<close>. The message of the
  error holds the status and the description, or the status text when the description is
  missing or falsy, unless the conversion of the description to a string throws; the error
  of the conversion is raised then.
\<close>

lemma check_response_unless_null:
  "body_json resp \<noteq> Inr JNull \<Longrightarrow>
   data = (case body_json resp of Inl e \<Rightarrow> JObj [] | Inr d \<Rightarrow> d) \<Longrightarrow>
   desc = (if truthy_json (json_get_opt data ''description'')
           then ToString rt (the (json_get_opt data ''description''))
           else Inr (statusText resp)) \<Longrightarrow>
   check_response rt resp =
     (if \<not> resp_ok resp \<or> json_get_opt data ''ok'' \<noteq> Some (JBool True)
      then Inl (case desc of
                  Inl e \<Rightarrow> e
                | Inr d \<Rightarrow> Exn ''Error'' (''Telegram failed: '' @ show_nat (status resp) @ '' '' @ d))
      else Inr data)"
  by (cases "body_json resp"; cases data)
     (auto simp: check_response_def json_get_def json_get_opt_def telegram_failed_def Let_def)

text \<open>
  A description that is an object with a member \<open>toString\<close> is such a case: the error
  raised is the TypeError of the conversion, with neither the status nor a description.
\<close>

lemma check_response_description_object:
  "check_response rt \<lparr>status = 400, statusText = ''Bad Request'',
      body_json = Inr (JObj [(''ok'', JBool False),
                             (''description'', JObj [(''toString'', JStr ''x'')])])\<rparr>
   = Inl (Exn ''TypeError'' ''Cannot convert object to primitive value'')"
  by (simp add: check_response_def resp_ok_def telegram_failed_def json_get_def json_get_opt_def
                obj_get_def truthy_json_def)

lemma check_response_chat_not_found:
  "check_response rt \<lparr>status = 200, statusText = st,
      body_json = Inr (JObj [(''ok'', JBool False), (''description'', JStr ''chat not found'')])\<rparr>
   = Inl (Exn ''Error'' ''Telegram failed: 200 chat not found'')"
  by (simp add: check_response_def resp_ok_def json_get_def obj_get_def telegram_failed_def
                json_get_opt_def truthy_json_def show_200)

section \<open>The email sender\<close>

text \<open>
  C8. \<open>createTransport\<close> throws exactly when one of host, user and password is missing
  (unset or empty). The check is part of every call of \<open>sendGuestEmail\<close>, on the
  configuration of that call: with a value missing the call throws that error and hands
  nothing to a transport; with none missing it builds a transport and hands it one message.
\<close>

theorem createTransport_missing:
  "(isl (createTransport env) \<longleftrightarrow> smtp_missing env)
   \<and> (smtp_missing env \<longrightarrow>
        createTransport env = Inl (Exn ''Error'' ''SMTP env missing'')
        \<and> sendGuestEmail env sendMail arg = (Inl (Exn ''Error'' ''SMTP env missing''), []))
   \<and> (\<not> smtp_missing env \<longrightarrow>
        (\<exists>t m. createTransport env = Inr t \<and> snd (sendGuestEmail env sendMail arg) = [SendMail t m]))"
  by (auto simp: createTransport_def sendGuestEmail_def smtp_missing_def truthy_str_def Let_def
           split: option.splits)

text \<open>Without the host the send throws; with the example configuration it does not.\<close>

theorem createTransport_missing_witness:
  "smtp_missing [''SMTP_USER'' \<mapsto> ''desk@example.com'', ''SMTP_PASS'' \<mapsto> ''secret'']
   \<and> sendGuestEmail [''SMTP_USER'' \<mapsto> ''desk@example.com'', ''SMTP_PASS'' \<mapsto> ''secret'']
         mail_sent [''to'' \<mapsto> ''jane@example.com'']
       = (Inl (Exn ''Error'' ''SMTP env missing''), [])
   \<and> \<not> smtp_missing example_env
   \<and> \<not> isl (createTransport example_env)"
proof -
  have a: "smtp_missing [''SMTP_USER'' \<mapsto> ''desk@example.com'', ''SMTP_PASS'' \<mapsto> ''secret'']"
    by (simp add: smtp_missing_def)
  have b: "\<not> smtp_missing example_env"
    by (simp add: smtp_missing_def example_env_def)
  show ?thesis
    using a b
      createTransport_missing [of "[''SMTP_USER'' \<mapsto> ''desk@example.com'', ''SMTP_PASS'' \<mapsto> ''secret'']"
                                  mail_sent "[''to'' \<mapsto> ''jane@example.com'']"]
      createTransport_missing [of example_env mail_sent "[''to'' \<mapsto> ''jane@example.com'']"]
    by blast
qed

text \<open>
  C9. The transport is built with the port 587 when no port is configured (the variable
  is unset or empty) and with the number of the configured string otherwise, and it is
  marked secure exactly when that port is 465.
\<close>

theorem createTransport_port:
  "createTransport env = Inr t \<Longrightarrow>
   port t = (if env ''SMTP_PORT'' = None \<or> env ''SMTP_PORT'' = Some [] then Num 587
             else Number_str (the (env ''SMTP_PORT'')))
   \<and> (secure t \<longleftrightarrow> port t = Num 465)"
  by (auto simp: createTransport_def Number_env_or_def truthy_str_def Let_def
           split: if_splits option.splits)

text \<open>With the port 465 configured, the transport of the example is secure.\<close>

theorem createTransport_port_witness:
  "createTransport (example_env(''SMTP_PORT'' \<mapsto> ''465''))
     = Inr \<lparr>host = ''smtp.example.com'', port = Num 465, secure = True,
            auth_user = ''desk@example.com'', auth_pass = ''secret''\<rparr>"
proof -
  obtain t where t: "createTransport (example_env(''SMTP_PORT'' \<mapsto> ''465'')) = Inr t"
    by (simp add: createTransport_def example_env_def truthy_str_def Let_def)
  from createTransport_port [OF t] have "port t = Num 465 \<and> secure t"
    by (simp add: Number_465)
  moreover from t have "host t = ''smtp.example.com'' \<and> auth_user t = ''desk@example.com''
                        \<and> auth_pass t = ''secret''"
    by (auto simp: createTransport_def example_env_def truthy_str_def Let_def)
  ultimately show ?thesis using t by simp
qed

section \<open>The booking handler\<close>

lemma example_parse: "BookingSchema_parse example_runtime example_payload = Inr example_booking"
  by (simp add: BookingSchema_parse_def example_payload_def example_booking_def example_runtime_def
                obj_get_def z_string_min_def z_string_email_def z_string_default_def
                issues_of_def value_of_def js_length_def)

lemma bad_field_issue:
  "issues_of (z_string_min n f (obj_get kvs f)) \<noteq> [] \<longleftrightarrow> bad_field kvs (f, n)"
  by (auto simp: bad_field_def z_string_min_def issues_of_def split: option.splits json.splits)

lemma bad_email_issue:
  "issues_of (z_string_email rt ''email'' (obj_get kvs ''email'')) \<noteq> [] \<longleftrightarrow> bad_email rt kvs"
  by (auto simp: bad_email_def z_string_email_def issues_of_def split: option.splits json.splits)

lemma bad_note_issue:
  "issues_of (z_string_default d ''note'' (obj_get kvs ''note'')) \<noteq> [] \<longleftrightarrow> bad_note kvs"
  by (auto simp: bad_note_def z_string_default_def issues_of_def split: option.splits json.splits)

text \<open>The schema rejects every object the specification calls invalid.\<close>

lemma invalid_object_rejected:
  assumes "invalid_payload rt (JObj kvs)"
  shows "\<exists>issues. issues \<noteq> [] \<and> BookingSchema_parse rt (JObj kvs) = Inl issues"
proof -
  from assms consider
      "bad_field kvs (''propertyCode'', 3)" | "bad_field kvs (''roomId'', 1)"
    | "bad_field kvs (''guestName'', 2)" | "bad_field kvs (''phone'', 6)"
    | "bad_field kvs (''checkIn'', 8)" | "bad_field kvs (''checkOut'', 8)"
    | "bad_email rt kvs" | "bad_note kvs"
    by (auto simp: invalid_payload_def min_lengths_def)
  then show ?thesis
  proof cases
    case 1
    then show ?thesis
      using bad_field_issue [of 3 "''propertyCode''" kvs]
      by (simp add: BookingSchema_parse_def Let_def)
  next
    case 2
    then show ?thesis
      using bad_field_issue [of 1 "''roomId''" kvs]
      by (simp add: BookingSchema_parse_def Let_def)
  next
    case 3
    then show ?thesis
      using bad_field_issue [of 2 "''guestName''" kvs]
      by (simp add: BookingSchema_parse_def Let_def)
  next
    case 4
    then show ?thesis
      using bad_field_issue [of 6 "''phone''" kvs]
      by (simp add: BookingSchema_parse_def Let_def)
  next
    case 5
    then show ?thesis
      using bad_field_issue [of 8 "''checkIn''" kvs]
      by (simp add: BookingSchema_parse_def Let_def)
  next
    case 6
    then show ?thesis
      using bad_field_issue [of 8 "''checkOut''" kvs]
      by (simp add: BookingSchema_parse_def Let_def)
  next
    case 7
    then show ?thesis
      using bad_email_issue [of rt kvs]
      by (simp add: BookingSchema_parse_def Let_def)
  next
    case 8
    then show ?thesis
      using bad_note_issue [of "[]" kvs]
      by (simp add: BookingSchema_parse_def Let_def)
  qed
qed

text \<open>The schema rejects every payload the specification calls invalid, object or not.\<close>

lemma invalid_payload_rejected:
  assumes "invalid_payload rt input"
  shows "\<exists>issues. issues \<noteq> [] \<and> BookingSchema_parse rt input = Inl issues"
proof (cases input)
  case (JObj kvs)
  with assms show ?thesis using invalid_object_rejected by simp
qed (simp_all add: BookingSchema_parse_def)

text \<open>And it rejects no other: a payload that is not invalid is parsed to a booking.\<close>

lemma valid_payload_accepted:
  assumes "\<not> invalid_payload rt input"
  shows "\<exists>data. BookingSchema_parse rt input = Inr data"
proof -
  from assms obtain kvs where input: "input = JObj kvs"
    by (cases input) (simp_all add: invalid_payload_def)
  with assms have ok:
    "\<not> bad_field kvs (''propertyCode'', 3)" "\<not> bad_field kvs (''roomId'', 1)"
    "\<not> bad_field kvs (''guestName'', 2)" "\<not> bad_field kvs (''phone'', 6)"
    "\<not> bad_field kvs (''checkIn'', 8)" "\<not> bad_field kvs (''checkOut'', 8)"
    "\<not> bad_email rt kvs" "\<not> bad_note kvs"
    by (simp_all add: invalid_payload_def min_lengths_def)
  have "issues_of (z_string_min 3 ''propertyCode'' (obj_get kvs ''propertyCode'')) = []"
       "issues_of (z_string_min 1 ''roomId'' (obj_get kvs ''roomId'')) = []"
       "issues_of (z_string_min 2 ''guestName'' (obj_get kvs ''guestName'')) = []"
       "issues_of (z_string_min 6 ''phone'' (obj_get kvs ''phone'')) = []"
       "issues_of (z_string_min 8 ''checkIn'' (obj_get kvs ''checkIn'')) = []"
       "issues_of (z_string_min 8 ''checkOut'' (obj_get kvs ''checkOut'')) = []"
       "issues_of (z_string_email rt ''email'' (obj_get kvs ''email'')) = []"
       "issues_of (z_string_default [] ''note'' (obj_get kvs ''note'')) = []"
    using ok bad_field_issue bad_email_issue bad_note_issue by blast+
  then show ?thesis
    by (simp add: input BookingSchema_parse_def Let_def)
qed

text \<open>A payload the schema rejects is answered from the \<open>catch\<close> block, with no call made.\<close>

lemma POST_parse_error:
  "BookingSchema_parse rt body = Inl issues \<Longrightarrow>
   POST rt env cm send sendMail (Inr body) =
     (\<lparr>http_status = 400, ok = False, error = Some (''['' @ zod_issues_text rt issues @ '']'')\<rparr>,
      [ConsoleError (ZodError issues)])"
  by (simp add: POST_def catch_block_def error_text_def exn_message_def)

text \<open>
  C1. For every payload that misses a required field or violates a minimum length or
  format constraint (a payload that is no object, as \<open>null\<close>, an array or a string, a field
  that is missing, is not a string, is too short or is no email address, a note that is
  not a string), whatever the configuration, the chat sender and the mail transport are:
  the schema throws its issues, the handler answers with status 400, \<open>ok: false\<close> and the
  message of that validation error, and its only effect is the line of \<open>console.error\<close>:
  no request to the chat-bot API and no message to a transport.
\<close>

theorem POST_invalid_payload:
  "invalid_payload rt input \<Longrightarrow>
   \<exists>issues. issues \<noteq> [] \<and> BookingSchema_parse rt input = Inl issues
     \<and> POST rt env cm send sendMail (Inr input) =
         (\<lparr>http_status = 400, ok = False, error = Some (''['' @ zod_issues_text rt issues @ '']'')\<rparr>,
          [ConsoleError (ZodError issues)])"
  using invalid_payload_rejected POST_parse_error by blast

text \<open>The property code \<open>B2\<close> is too short, and the other fields are missing.\<close>

theorem POST_invalid_payload_witness:
  "POST example_runtime example_env Map.empty chat_sent mail_sent
        (Inr (JObj [(''propertyCode'', JStr ''B2'')])) =
     (\<lparr>http_status = 400, ok = False, error = Some ''[]''\<rparr>,
      [ConsoleError (ZodError
         [TooSmall [''propertyCode''] 3,
          InvalidType [''roomId''] ''string'' ''undefined'',
          InvalidType [''guestName''] ''string'' ''undefined'',
          InvalidType [''phone''] ''string'' ''undefined'',
          InvalidType [''email''] ''string'' ''undefined'',
          InvalidType [''checkIn''] ''string'' ''undefined'',
          InvalidType [''checkOut''] ''string'' ''undefined''])])"
proof -
  have h: "invalid_payload example_runtime (JObj [(''propertyCode'', JStr ''B2'')])"
    by (simp add: invalid_payload_def min_lengths_def bad_field_def obj_get_def js_length_def)
  have p: "BookingSchema_parse example_runtime (JObj [(''propertyCode'', JStr ''B2'')]) =
             Inl [TooSmall [''propertyCode''] 3,
                  InvalidType [''roomId''] ''string'' ''undefined'',
                  InvalidType [''guestName''] ''string'' ''undefined'',
                  InvalidType [''phone''] ''string'' ''undefined'',
                  InvalidType [''email''] ''string'' ''undefined'',
                  InvalidType [''checkIn''] ''string'' ''undefined'',
                  InvalidType [''checkOut''] ''string'' ''undefined'']"
    by (simp add: BookingSchema_parse_def obj_get_def z_string_min_def z_string_email_def
                  z_string_default_def issues_of_def zod_type_def js_length_def)
  from POST_invalid_payload [OF h, of example_env Map.empty chat_sent mail_sent] p
  show ?thesis
    by (auto simp: example_runtime_def)
qed

text \<open>
  C2. For a payload the schema accepts, if the chat-bot API answers the request of the
  handler with HTTP 200 and the body \<open>{ok: false, description: "chat not found"}\<close>, the
  handler answers \<open>{ok: false, error: "Telegram failed: 200 chat not found"}\<close> with status
  400, and after the request its only effect is the line of \<open>console.error\<close>: no message
  is handed to a mail transport.
\<close>

theorem POST_chat_not_found:
  "BookingSchema_parse rt body = Inr data \<Longrightarrow>
   req = sendMessage_request (botToken (resolveTelegramRoute env cm (propertyCode data)))
           (chatId (resolveTelegramRoute env cm (propertyCode data))) (booking_message data) \<Longrightarrow>
   fetch req = Inr \<lparr>status = 200, statusText = st,
      body_json = Inr (JObj [(''ok'', JBool False), (''description'', JStr ''chat not found'')])\<rparr> \<Longrightarrow>
   POST rt env cm (sendTelegramMessage rt fetch) sendMail (Inr body) =
     (\<lparr>http_status = 400, ok = False, error = Some ''Telegram failed: 200 chat not found''\<rparr>,
      [Fetch req, ConsoleError (Exn ''Error'' ''Telegram failed: 200 chat not found'')])"
  by (simp add: POST_def sendTelegramMessage_def telegramSendText_def Let_def
                check_response_chat_not_found catch_block_def error_text_def exn_message_def)

theorem POST_chat_not_found_witness:
  "POST example_runtime example_env Map.empty
        (sendTelegramMessage example_runtime (\<lambda>req. Inr chat_not_found)) mail_sent
        (Inr example_payload) =
     (\<lparr>http_status = 400, ok = False, error = Some ''Telegram failed: 200 chat not found''\<rparr>,
      [Fetch (sendMessage_request (Some ''tok'') (JsNumber (Num 0)) (booking_message example_booking)),
       ConsoleError (Exn ''Error'' ''Telegram failed: 200 chat not found'')])"
proof -
  have r: "resolveTelegramRoute example_env Map.empty (propertyCode example_booking)
             = \<lparr>botToken = Some ''tok'', chatId = JsNumber (Num 0)\<rparr>"
    by (simp add: resolveTelegramRoute_def example_env_def example_booking_def get_prop_def
                  truthy_def object_prototype_keys_def Number_env_or_def truthy_str_def)
  show ?thesis
    using POST_chat_not_found
            [OF example_parse refl, of "\<lambda>req. Inr chat_not_found" example_env Map.empty
               "''OK''" mail_sent]
    by (simp add: r chat_not_found_def)
qed

text \<open>
  C10. For every booking the schema accepts, once the chat message is sent and a
  transport is built, the one message the handler's call of \<open>sendGuestEmail\<close> hands to
  the transport has the sender of the configuration and the guest's address, and its
  subject, html and text are undefined.
\<close>

theorem POST_mail_fields:
  "BookingSchema_parse rt body = Inr data \<Longrightarrow>
   send (resolveTelegramRoute env cm (propertyCode data)) (booking_message data) = (Inr r, trace) \<Longrightarrow>
   createTransport env = Inr t \<Longrightarrow>
   m = \<lparr>mail_from = (if truthy_str (env ''SMTP_FROM'') then env ''SMTP_FROM'' else env ''SMTP_USER''),
        mail_to = Some (email data), subject = None, html = None, mail_text = None\<rparr> \<Longrightarrow>
   snd (POST rt env cm send sendMail (Inr body)) =
     trace @ [SendMail t m] @ (case sendMail t m of None \<Rightarrow> [] | Some e \<Rightarrow> [ConsoleError e])
   \<and> mail_from m \<noteq> None"
  by (auto simp: POST_def sendGuestEmail_def Let_def catch_block_def createTransport_def
                 truthy_str_def
           split: option.splits if_splits)

theorem POST_mail_fields_witness:
  "POST example_runtime example_env Map.empty chat_sent mail_sent (Inr example_payload) =
     (\<lparr>http_status = 200, ok = True, error = None\<rparr>,
      [SendMail \<lparr>host = ''smtp.example.com'', port = Num 587, secure = False,
                 auth_user = ''desk@example.com'', auth_pass = ''secret''\<rparr>
         \<lparr>mail_from = Some ''desk@example.com'', mail_to = Some ''jane@example.com'',
          subject = None, html = None, mail_text = None\<rparr>])"
proof -
  have t: "createTransport example_env
             = Inr \<lparr>host = ''smtp.example.com'', port = Num 587, secure = False,
                    auth_user = ''desk@example.com'', auth_pass = ''secret''\<rparr>"
    by (simp add: createTransport_def example_env_def truthy_str_def Number_env_or_def)
  have c: "chat_sent (resolveTelegramRoute example_env Map.empty (propertyCode example_booking))
             (booking_message example_booking) = (Inr (JObj [(''ok'', JBool True)]), [])"
    by (simp add: chat_sent_def)
  have "snd (POST example_runtime example_env Map.empty chat_sent mail_sent (Inr example_payload))
          = [SendMail \<lparr>host = ''smtp.example.com'', port = Num 587, secure = False,
                       auth_user = ''desk@example.com'', auth_pass = ''secret''\<rparr>
               \<lparr>mail_from = Some ''desk@example.com'', mail_to = Some ''jane@example.com'',
                subject = None, html = None, mail_text = None\<rparr>]"
    using POST_mail_fields [where send = chat_sent and env = example_env and cm = Map.empty
                              and sendMail = mail_sent, OF example_parse c t refl]
    by (simp add: example_env_def example_booking_def truthy_str_def mail_sent_def)
  moreover have "fst (POST example_runtime example_env Map.empty chat_sent mail_sent (Inr example_payload))
                   = \<lparr>http_status = 200, ok = True, error = None\<rparr>"
    by (simp add: POST_def example_parse chat_sent_def sendGuestEmail_def t mail_sent_def Let_def)
  ultimately show ?thesis
    by (simp add: prod_eq_iff)
qed

end
